theory Spec2Isabelle
  imports Main
begin

section \<open>Python strings\<close>

text \<open>
  The two scripts work on Python \<open>str\<close> values.  A \<open>str\<close> is a sequence of code
  points; here it is a \<^typ>\<open>string\<close> whose characters are read as the code points
  U+0000 to U+00FF, so \<^const>\<open>length\<close> is Python's \<open>len\<close>.  The character classes
  below are Python's on that range: \<open>str.isspace\<close>, \<open>str.lower\<close>, \<open>str.upper\<close>,
  \<open>str.islower\<close>, \<open>str.isupper\<close>, and the regular-expression class \<open>\d\<close>.
\<close>

definition nl :: char where
  "nl = CHR 0x0A"

definition whitespace :: "char list" where
  "whitespace = [CHR 0x09, CHR 0x0A, CHR 0x0B, CHR 0x0C, CHR 0x0D, CHR 0x1C, CHR 0x1D,
     CHR 0x1E, CHR 0x1F, CHR 0x20, CHR 0x85, CHR 0xA0]"

definition is_space :: "char \<Rightarrow> bool" where
  "is_space c = (c \<in> set whitespace)"

definition upper_letters :: "char list" where
  "upper_letters = ''ABCDEFGHIJKLMNOPQRSTUVWXYZ'' @
     [CHR 0xC0, CHR 0xC1, CHR 0xC2, CHR 0xC3, CHR 0xC4, CHR 0xC5, CHR 0xC6, CHR 0xC7,
      CHR 0xC8, CHR 0xC9, CHR 0xCA, CHR 0xCB, CHR 0xCC, CHR 0xCD, CHR 0xCE, CHR 0xCF,
      CHR 0xD0, CHR 0xD1, CHR 0xD2, CHR 0xD3, CHR 0xD4, CHR 0xD5, CHR 0xD6,
      CHR 0xD8, CHR 0xD9, CHR 0xDA, CHR 0xDB, CHR 0xDC, CHR 0xDD, CHR 0xDE]"

definition lower_letters :: "char list" where
  "lower_letters = ''abcdefghijklmnopqrstuvwxyz'' @
     [CHR 0xE0, CHR 0xE1, CHR 0xE2, CHR 0xE3, CHR 0xE4, CHR 0xE5, CHR 0xE6, CHR 0xE7,
      CHR 0xE8, CHR 0xE9, CHR 0xEA, CHR 0xEB, CHR 0xEC, CHR 0xED, CHR 0xEE, CHR 0xEF,
      CHR 0xF0, CHR 0xF1, CHR 0xF2, CHR 0xF3, CHR 0xF4, CHR 0xF5, CHR 0xF6,
      CHR 0xF8, CHR 0xF9, CHR 0xFA, CHR 0xFB, CHR 0xFC, CHR 0xFD, CHR 0xFE]"

text \<open>
  Besides the letters that have an upper-case partner in the range, Python counts the
  ordinal indicators U+00AA and U+00BA, the micro sign U+00B5, the sharp s U+00DF and
  U+00FF as lower case.
\<close>

definition is_lower_char :: "char \<Rightarrow> bool" where
  "is_lower_char c = (c \<in> set (lower_letters @ [CHR 0xAA, CHR 0xB5, CHR 0xBA, CHR 0xDF, CHR 0xFF]))"

definition is_upper_char :: "char \<Rightarrow> bool" where
  "is_upper_char c = (c \<in> set upper_letters)"

definition is_digit :: "char \<Rightarrow> bool" where
  "is_digit c = (c \<in> set ''0123456789'')"

definition lower_char :: "char \<Rightarrow> char" where
  "lower_char c = (case map_of (zip upper_letters lower_letters) c of Some d \<Rightarrow> d | None \<Rightarrow> c)"

definition lower :: "string \<Rightarrow> string" where
  "lower s = map lower_char s"

text \<open>
  \<open>str.upper\<close> turns the sharp s into the two letters \<open>SS\<close>.  It sends U+00B5 and
  U+00FF to code points above U+00FF, which this string type does not have; \<open>upper\<close>
  leaves those two unchanged.  The scanners only search the result of \<open>upper\<close> for
  words of ASCII capitals, and neither image is one.
\<close>

definition upper_char :: "char \<Rightarrow> string" where
  "upper_char c = (if c = CHR 0xDF then ''SS''
     else case map_of (zip lower_letters upper_letters) c of Some d \<Rightarrow> [d] | None \<Rightarrow> [c])"

definition upper :: "string \<Rightarrow> string" where
  "upper s = concat (map upper_char s)"

text \<open>\<open>s.isupper()\<close>: no lower-case character and at least one upper-case one.\<close>

definition isupper :: "string \<Rightarrow> bool" where
  "isupper s = (\<not> list_ex is_lower_char s \<and> list_ex is_upper_char s)"

text \<open>\<open>s.strip()\<close> removes the white space at both ends.\<close>

definition lstrip :: "string \<Rightarrow> string" where
  "lstrip s = dropWhile is_space s"

definition rstrip :: "string \<Rightarrow> string" where
  "rstrip s = rev (dropWhile is_space (rev s))"

definition strip :: "string \<Rightarrow> string" where
  "strip s = rstrip (lstrip s)"

text \<open>\<open>s.startswith(p)\<close>.\<close>

fun startswith :: "string \<Rightarrow> string \<Rightarrow> bool" where
  "startswith s [] = True"
| "startswith [] (p # ps) = False"
| "startswith (c # cs) (p # ps) = (c = p \<and> startswith cs ps)"

text \<open>
  \<open>s.find(sub)\<close> is the least index at which \<open>sub\<close> occurs in \<open>s\<close>; Python's \<open>-1\<close> is
  \<open>None\<close>.  \<open>s.find(sub, k)\<close> searches from index \<open>k\<close> on.
\<close>

fun find_str :: "string \<Rightarrow> string \<Rightarrow> nat option" where
  "find_str [] sub = (if sub = [] then Some 0 else None)"
| "find_str (c # cs) sub =
     (if startswith (c # cs) sub then Some 0 else map_option Suc (find_str cs sub))"

definition find_from :: "string \<Rightarrow> string \<Rightarrow> nat \<Rightarrow> nat option" where
  "find_from s sub k =
     (if length s < k then None else map_option (\<lambda>i. i + k) (find_str (drop k s) sub))"

text \<open>\<open>sub in s\<close>.\<close>

definition contains :: "string \<Rightarrow> string \<Rightarrow> bool" where
  "contains s sub = (find_str s sub \<noteq> None)"

text \<open>The slices \<open>s[a:b]\<close> and \<open>s[a:]\<close> for indices that are not negative.\<close>

definition slice :: "string \<Rightarrow> nat \<Rightarrow> nat \<Rightarrow> string" where
  "slice s a b = drop a (take b s)"

definition slice_from :: "string \<Rightarrow> nat \<Rightarrow> string" where
  "slice_from s a = drop a s"

text \<open>\<open>s.split(c)\<close> for a separator of one character.\<close>

fun split_on :: "char \<Rightarrow> string \<Rightarrow> string list" where
  "split_on c [] = [[]]"
| "split_on c (x # xs) =
     (if x = c then [] # split_on c xs
      else case split_on c xs of [] \<Rightarrow> [[x]] | w # ws \<Rightarrow> (x # w) # ws)"

text \<open>
  \<open>s.split('\n\n')\<close>: the separator is matched from the left and the matches do not
  overlap, so three line feeds in a row give one break and leave one line feed.
\<close>

fun split_nlnl :: "string \<Rightarrow> string list" where
  "split_nlnl [] = [[]]"
| "split_nlnl [a] = [[a]]"
| "split_nlnl (a # b # cs) =
     (if a = nl \<and> b = nl then [] # split_nlnl cs
      else case split_nlnl (b # cs) of [] \<Rightarrow> [[a]] | w # ws \<Rightarrow> (a # w) # ws)"

text \<open>\<open>sep.join(xs)\<close>.\<close>

fun join :: "string \<Rightarrow> string list \<Rightarrow> string" where
  "join sep [] = []"
| "join sep [x] = x"
| "join sep (x # y # ys) = x @ sep @ join sep (y # ys)"

text \<open>
  A variable that holds \<open>None\<close> or a string is a \<^typ>\<open>string option\<close>; Python's test
  \<open>if v:\<close> fails on \<open>None\<close> and on the empty string.
\<close>

fun truthy :: "string option \<Rightarrow> bool" where
  "truthy None = False"
| "truthy (Some s) = (s \<noteq> [])"

text \<open>
  An f-string prints a variable that holds \<open>None\<close> as the word \<open>None\<close>.
\<close>

fun fmt :: "string option \<Rightarrow> string" where
  "fmt None = ''None''"
| "fmt (Some s) = s"


section \<open>The chunk records\<close>

text \<open>
  \<open>create_chunk_objects\<close> turns the scanner's (section, text) pairs into the
  dictionaries that are uploaded.  Each dictionary gets \<open>str(uuid.uuid4())\<close> as its
  \<open>id\<close>.  The generator is the one effect of the function: \<open>uuid4 k\<close> stands for
  the string that the call number \<open>k\<close> of the run returns, and the number of calls
  made so far is threaded through.
\<close>

record chunk =
  c_id :: string
  c_author :: string
  c_work :: string
  c_section :: string
  c_text :: string
  c_chunk_index :: nat

definition mk_chunk :: "(nat \<Rightarrow> string) \<Rightarrow> nat \<Rightarrow> string \<Rightarrow> string \<Rightarrow> nat \<times> string \<times> string \<Rightarrow> chunk" where
  "mk_chunk uuid4 k author work e =
     (case e of (i, sect, txt) \<Rightarrow>
        \<lparr>c_id = uuid4 (k + i), c_author = author, c_work = work,
         c_section = sect, c_text = txt, c_chunk_index = i\<rparr>)"

definition create_chunk_objects ::
  "(nat \<Rightarrow> string) \<Rightarrow> nat \<Rightarrow> (string \<times> string) list \<Rightarrow> string \<Rightarrow> string \<Rightarrow> chunk list \<times> nat" where
  "create_chunk_objects uuid4 k chunks author work =
     (map (mk_chunk uuid4 k author work) (enumerate 0 chunks), k + length chunks)"


section \<open>The boundary locator\<close>

definition extract_content :: "string \<Rightarrow> string" where
  "extract_content text0 =
     (let start_marker = ''*** START OF'';
          end_marker = ''*** END OF'';
          start_idx = find_str text0 start_marker;
          end_idx = find_str text0 end_marker
      in case (start_idx, end_idx) of
           (Some s, Some e) \<Rightarrow>
             (case find_from text0 [nl] s of
                Some s' \<Rightarrow> strip (slice text0 s' e)
              | None \<Rightarrow> strip text0)
         | _ \<Rightarrow> strip text0)"


section \<open>The Marcus Aurelius scanner\<close>

definition marcus_numerals :: "string list" where
  "marcus_numerals =
     [''I'', ''II'', ''III'', ''IV'', ''V'', ''VI'', ''VII'', ''VIII'', ''IX'', ''X'',
      ''XI'', ''XII'', ''XIII'', ''XIV'', ''XV'', ''XVI'', ''XVII'', ''XVIII'', ''XIX'', ''XX'',
      ''XXI'', ''XXII'', ''XXIII'', ''XXIV'', ''XXV'', ''XXVI'', ''XXVII'', ''XXVIII'', ''XXIX'', ''XXX'',
      ''XXXI'', ''XXXII'', ''XXXIII'', ''XXXIV'', ''XXXV'', ''XXXVI'', ''XXXVII'', ''XXXVIII'', ''XXXIX'', ''XL'',
      ''XLI'', ''XLII'', ''XLIII'', ''XLIV'', ''XLV'', ''XLVI'', ''XLVII'', ''XLVIII'', ''XLIX'', ''L'', ''LI'', ''LII'', ''LIII'',
      ''LIV'', ''LV'', ''LVI'', ''LVII'', ''LVIII'']"

definition book_ordinals :: "string list" where
  "book_ordinals = [''FIRST'', ''SECOND'', ''THIRD'', ''FOURTH'', ''FIFTH'', ''SIXTH'',
     ''SEVENTH'', ''EIGHTH'', ''NINTH'', ''TENTH'', ''ELEVENTH'', ''TWELFTH'']"

text \<open>
  The state of the loop over the paragraphs: the chunks appended so far and the
  current book.
\<close>

record marcus_state =
  ma_chunks :: "(string \<times> string) list"
  ma_current_book :: "string option"

definition marcus_step :: "string \<Rightarrow> marcus_state \<Rightarrow> marcus_state" where
  "marcus_step para0 st =
     (let para = strip para0 in
      if para = [] then st
      else
        let first_line = strip (hd (split_on nl para));
            first_line_upper = upper first_line
        in
        if contains first_line_upper ''BOOK''
           \<and> list_ex (\<lambda>num. contains first_line_upper num) book_ordinals
        then st\<lparr>ma_current_book := Some first_line\<rparr>
        else if \<not> truthy (ma_current_book st) then st
        else
          let lines = split_on nl para;
              first_word = hd (split_on CHR ''.'' (strip (hd lines)))
          in
          if first_word \<in> set marcus_numerals
          then st\<lparr>ma_chunks := ma_chunks st @
                 [(fmt (ma_current_book st) @ '' - Section '' @ first_word, para)]\<rparr>
          else st)"

definition marcus_end_marker :: string where
  "marcus_end_marker = ''As for thyself; thou hast to do with neither. Go thy ways then well pleased and contented: for so is He that dismisseth thee.''"

definition marcus_pairs :: "string \<Rightarrow> (string \<times> string) list" where
  "marcus_pairs text0 =
     (case find_str text0 ''THE FIRST BOOK'' of
        None \<Rightarrow> []
      | Some start_pos \<Rightarrow>
          (case find_from text0 ''I. Of my grandfather'' start_pos of
             None \<Rightarrow> []
           | Some actual_start_pos \<Rightarrow>
               let filtered_text =
                     (case find_str text0 marcus_end_marker of
                        None \<Rightarrow> slice_from text0 start_pos
                      | Some end_pos \<Rightarrow> slice text0 start_pos end_pos);
                   paragraphs = split_nlnl filtered_text
               in ma_chunks (fold marcus_step paragraphs
                               \<lparr>ma_chunks = [], ma_current_book = None\<rparr>)))"

definition chunk_marcus_meditations ::
  "(nat \<Rightarrow> string) \<Rightarrow> nat \<Rightarrow> string \<Rightarrow> string \<Rightarrow> string \<Rightarrow> chunk list \<times> nat" where
  "chunk_marcus_meditations uuid4 k text0 author work =
     create_chunk_objects uuid4 k (marcus_pairs text0) author work"


section \<open>The Seneca's Morals scanner\<close>

definition boilerplate :: "string list" where
  "boilerplate = [''project gutenberg'', ''table of contents'', ''http://'']"

record morals_state =
  mo_chunks :: "(string \<times> string) list"
  mo_main_section :: "string option"
  mo_chapter :: "string option"
  mo_chapter_title :: "string option"
  mo_content :: "string list"

text \<open>
  The block that saves the open chapter.  The source repeats it at a main section
  header, at a chapter header and after the loop.
\<close>

definition morals_flush :: "morals_state \<Rightarrow> morals_state" where
  "morals_flush st =
     (if truthy (mo_chapter st) \<and> mo_content st \<noteq> [] then
        let full_text = strip (join [nl] (mo_content st)) in
        if length full_text > 100 then
          let section_name = fmt (mo_main_section st) @ '' - '' @ fmt (mo_chapter st);
              section_name' = (if truthy (mo_chapter_title st)
                               then section_name @ '' - '' @ fmt (mo_chapter_title st)
                               else section_name)
          in st\<lparr>mo_chunks := mo_chunks st @ [(section_name', full_text)]\<rparr>
        else st
      else st)"

text \<open>
  The look-ahead for the chapter title, on the lines after the header at index \<open>i\<close>.
  It returns the title lines and \<open>j - (i + 1)\<close>, the number of lines that the inner
  loop of the source has passed when it stops.
\<close>

fun title_scan :: "string list \<Rightarrow> string list \<times> nat" where
  "title_scan [] = ([], 0)"
| "title_scan (l # ls) =
     (let next_line = strip l in
      if next_line = [] then
        (case title_scan ls of (title_lines, n) \<Rightarrow> (title_lines, Suc n))
      else if startswith next_line ''CHAPTER '' then ([], 0)
      else if startswith next_line ''SENECA OF ''
              \<or> next_line \<in> set [''TO THE READER.'', ''CONTENTS''] then ([], 0)
      else if isupper next_line then
        (case title_scan ls of (title_lines, n) \<Rightarrow> (next_line # title_lines, Suc n))
      else ([], 0))"

definition is_section_header :: "string \<Rightarrow> bool" where
  "is_section_header line = startswith line ''SENECA OF ''"

definition is_chapter_header :: "string \<Rightarrow> bool" where
  "is_chapter_header line =
     (startswith line ''CHAPTER '' \<and> CHR ''.'' \<in> set line \<and> length line < 20)"

definition morals_section :: "string \<Rightarrow> morals_state \<Rightarrow> morals_state" where
  "morals_section line st =
     (morals_flush st)\<lparr>mo_main_section := Some line, mo_chapter := None,
                        mo_chapter_title := None, mo_content := []\<rparr>"

definition morals_chapter :: "string \<Rightarrow> morals_state \<Rightarrow> morals_state" where
  "morals_chapter line st =
     (morals_flush st)\<lparr>mo_chapter := Some (strip (filter (\<lambda>c. c \<noteq> CHR ''.'') line)),
                        mo_content := []\<rparr>"

definition morals_line :: "string \<Rightarrow> morals_state \<Rightarrow> morals_state" where
  "morals_line line st =
     (if line = [] \<or> length line < 10 then
        (if mo_content st \<noteq> [] then st\<lparr>mo_content := mo_content st @ [line]\<rparr> else st)
      else if list_ex (\<lambda>skip. contains (lower line) skip) boilerplate then st
      else if truthy (mo_main_section st) then st\<lparr>mo_content := mo_content st @ [line]\<rparr>
      else st)"

text \<open>
  The \<open>while\<close> loop over the lines.  The index \<open>i\<close> of the source is the position of
  the list of lines still to read; after a chapter header with a title it jumps to
  the index \<open>j\<close> where the look-ahead stopped.
\<close>

function morals_loop :: "morals_state \<Rightarrow> string list \<Rightarrow> morals_state" where
  "morals_loop st [] = st"
| "morals_loop st (l # ls) =
     (let line = strip l in
      if is_section_header line then morals_loop (morals_section line st) ls
      else if is_chapter_header line then
        (if fst (title_scan ls) \<noteq> [] then
           morals_loop ((morals_chapter line st)
                          \<lparr>mo_chapter_title := Some (join '' '' (fst (title_scan ls)))\<rparr>)
                       (drop (snd (title_scan ls)) ls)
         else morals_loop ((morals_chapter line st)\<lparr>mo_chapter := None\<rparr>) ls)
      else morals_loop (morals_line line st) ls)"
  by pat_completeness auto
termination
  by (relation "measure (\<lambda>(st, ls). length ls)")
     auto

definition morals_finish :: "morals_state \<Rightarrow> morals_state" where
  "morals_finish st =
     (if truthy (mo_chapter st) \<and> mo_content st \<noteq> [] then morals_flush st
      else if truthy (mo_main_section st) \<and> mo_content st \<noteq> []
              \<and> contains (fmt (mo_main_section st)) ''CLEMENCY'' then
        let full_text = strip (join [nl] (mo_content st)) in
        if length full_text > 100
        then st\<lparr>mo_chunks := mo_chunks st @ [(fmt (mo_main_section st), full_text)]\<rparr>
        else st
      else st)"

definition morals_init :: morals_state where
  "morals_init = \<lparr>mo_chunks = [], mo_main_section = None, mo_chapter = None,
                  mo_chapter_title = None, mo_content = []\<rparr>"

definition morals_pairs :: "string \<Rightarrow> (string \<times> string) list" where
  "morals_pairs text0 =
     (case find_str text0 ''SENECA OF BENEFITS'' of
        None \<Rightarrow> []
      | Some start_pos \<Rightarrow>
          let filtered_text = slice_from text0 start_pos;
              lines = split_on nl filtered_text
          in mo_chunks (morals_finish (morals_loop morals_init lines)))"

definition chunk_seneca_morals ::
  "(nat \<Rightarrow> string) \<Rightarrow> nat \<Rightarrow> string \<Rightarrow> string \<Rightarrow> string \<Rightarrow> chunk list \<times> nat" where
  "chunk_seneca_morals uuid4 k text0 author work =
     create_chunk_objects uuid4 k (morals_pairs text0) author work"


section \<open>The Seneca's Dialogues scanner\<close>

text \<open>
  The three regular expressions of this scanner.  A matcher takes the text at the
  position that is tried and returns the length of the match there.  Every repetition
  in the three patterns is over a character class that excludes the character the
  pattern asks for next, so the greedy match is the only one and no backtracking is
  modelled.
\<close>

type_synonym matcher = "string \<Rightarrow> nat option"

definition lit :: "string \<Rightarrow> matcher" where
  "lit p s = (if startswith s p then Some (length p) else None)"

definition digits1 :: matcher where
  "digits1 s = (let n = length (takeWhile is_digit s) in if n = 0 then None else Some n)"

definition not_gt_star :: matcher where
  "not_gt_star s = Some (length (takeWhile (\<lambda>c. c \<noteq> CHR ''>'') s))"

definition re_seq :: "matcher \<Rightarrow> matcher \<Rightarrow> matcher" where
  "re_seq m1 m2 s =
     (case m1 s of None \<Rightarrow> None | Some n \<Rightarrow> map_option (\<lambda>k. n + k) (m2 (drop n s)))"

text \<open>\<open>\[\d+\]\<close>\<close>

definition re_footnote :: matcher where
  "re_footnote = re_seq (lit ''['') (re_seq digits1 (lit '']''))"

text \<open>\<open><sup>\[\d+\]</sup>\<close>\<close>

definition re_sup :: matcher where
  "re_sup = re_seq (lit ''<sup>'') (re_seq re_footnote (lit ''</sup>''))"

text \<open>\<open><a[^>]*><sup>\[\d+\]</sup></a>\<close>\<close>

definition re_anchor :: matcher where
  "re_anchor = re_seq (lit ''<a'') (re_seq not_gt_star (re_seq (lit ''>'') (re_seq re_sup (lit ''</a>''))))"

text \<open>
  \<open>re.sub(pattern, '', s)\<close>: the matches are taken from the left and do not overlap.
  A match of the three patterns has at least one character, so after a match of
  length \<open>n\<close> at \<open>c # cs\<close> the scan goes on at \<open>drop (n - 1) cs\<close>.
\<close>

fun re_sub_empty :: "matcher \<Rightarrow> string \<Rightarrow> string" where
  "re_sub_empty m [] = []"
| "re_sub_empty m (c # cs) =
     (case m (c # cs) of
        Some n \<Rightarrow> re_sub_empty m (drop (n - 1) cs)
      | None \<Rightarrow> c # re_sub_empty m cs)"

definition dialogues_numerals :: "string list" where
  "dialogues_numerals =
     [''I'', ''II'', ''III'', ''IV'', ''V'', ''VI'', ''VII'', ''VIII'', ''IX'', ''X'',
      ''XI'', ''XII'', ''XIII'', ''XIV'', ''XV'', ''XVI'', ''XVII'', ''XVIII'', ''XIX'', ''XX'',
      ''XXI'', ''XXII'', ''XXIII'', ''XXIV'', ''XXV'', ''XXVI'', ''XXVII'', ''XXVIII'', ''XXIX'', ''XXX'',
      ''XXXI'', ''XXXII'', ''XXXIII'', ''XXXIV'', ''XXXV'', ''XXXVI'', ''XXXVII'', ''XXXVIII'', ''XXXIX'', ''XL'',
      ''XLI'', ''XLII'', ''XLIII'', ''XLIV'', ''XLV'', ''XLVI'', ''XLVII'', ''XLVIII'', ''XLIX'', ''L'',
      ''LI'', ''LII'', ''LIII'', ''LIV'', ''LV'', ''LVI'', ''LVII'', ''LVIII'', ''LIX'', ''LX'']"

definition dialogue_ordinals :: "string list" where
  "dialogue_ordinals = [''FIRST'', ''SECOND'', ''THIRD'', ''FOURTH'', ''FIFTH'', ''SIXTH'',
     ''SEVENTH'', ''EIGHTH'', ''NINTH'', ''TENTH'', ''ELEVENTH'', ''TWELFTH'']"

text \<open>
  \<open>re.match(r'THE (FIRST|...|TWELFTH) BOOK OF THE DIALOGUES', line)\<close>: the pattern is
  matched at the start of the line.
\<close>

definition book_match :: "string \<Rightarrow> bool" where
  "book_match line =
     list_ex (\<lambda>w. startswith line (''THE '' @ w @ '' BOOK OF THE DIALOGUES'')) dialogue_ordinals"

definition special_book :: "string \<Rightarrow> bool" where
  "special_book line = contains line ''BOOK OF THE DIALOGUE OF L. ANNAEUS''"

text \<open>\<open>re.match(r'^\[\d+\]', line)\<close>\<close>

definition footnote_line :: "string \<Rightarrow> bool" where
  "footnote_line line = (re_footnote line \<noteq> None)"

record dialogues_state =
  di_chunks :: "(string \<times> string) list"
  di_book :: "string option"
  di_book_title :: "string option"
  di_paragraph :: "string list"
  di_paragraph_num :: "string option"
  di_in_footnotes :: bool

text \<open>
  The body of the block that saves the open paragraph; the test that guards it
  differs from place to place and is written at each place.
\<close>

definition dialogues_emit :: "dialogues_state \<Rightarrow> dialogues_state" where
  "dialogues_emit st =
     (let para_text = strip (join [nl] (di_paragraph st));
          para_text' = re_sub_empty re_footnote para_text
      in if length para_text' > 100 then
           st\<lparr>di_chunks := di_chunks st @
                [(fmt (di_book_title st) @ '' - Paragraph '' @ fmt (di_paragraph_num st), para_text')]\<rparr>
         else st)"

definition dialogues_new_book :: "string \<Rightarrow> dialogues_state \<Rightarrow> dialogues_state" where
  "dialogues_new_book line st =
     (if truthy (di_book st) \<and> di_paragraph st \<noteq> [] \<and> truthy (di_paragraph_num st)
      then dialogues_emit st else st)
     \<lparr>di_book := Some line, di_book_title := Some line, di_paragraph := [],
      di_paragraph_num := None, di_in_footnotes := False\<rparr>"

definition dialogues_step :: "string \<Rightarrow> dialogues_state \<Rightarrow> dialogues_state" where
  "dialogues_step l st =
     (let line = strip l in
      if book_match line then dialogues_new_book line st
      else if special_book line then dialogues_new_book line st
      else if \<not> truthy (di_book st) then st
      else if footnote_line line then
        (if di_paragraph st \<noteq> [] \<and> truthy (di_paragraph_num st)
         then (dialogues_emit st)\<lparr>di_paragraph := [], di_paragraph_num := None\<rparr>
         else st)\<lparr>di_in_footnotes := True\<rparr>
      else if di_in_footnotes st then st
      else
        let line_start = (if CHR ''.'' \<in> set line then strip (hd (split_on CHR ''.'' line)) else [])
        in
        if line_start \<in> set dialogues_numerals \<and> length line > length line_start + 2 then
          (if di_paragraph st \<noteq> [] \<and> truthy (di_paragraph_num st)
           then dialogues_emit st else st)
          \<lparr>di_paragraph_num := Some line_start, di_paragraph := [line]\<rparr>
        else if line = [] \<or> length line < 10 then
          (if di_paragraph st \<noteq> [] then st\<lparr>di_paragraph := di_paragraph st @ [line]\<rparr> else st)
        else if list_ex (\<lambda>skip. contains (lower line) skip) boilerplate then st
        else if di_paragraph st \<noteq> [] then st\<lparr>di_paragraph := di_paragraph st @ [line]\<rparr>
        else st)"

definition dialogues_finish :: "dialogues_state \<Rightarrow> dialogues_state" where
  "dialogues_finish st =
     (if truthy (di_book st) \<and> di_paragraph st \<noteq> [] \<and> truthy (di_paragraph_num st)
         \<and> \<not> di_in_footnotes st
      then dialogues_emit st else st)"

definition dialogues_init :: dialogues_state where
  "dialogues_init = \<lparr>di_chunks = [], di_book = None, di_book_title = None,
     di_paragraph = [], di_paragraph_num = None, di_in_footnotes = False\<rparr>"

definition dialogues_end_marker :: string where
  "dialogues_end_marker = ''how what is crooked may be straightened. . . .''"

definition dialogues_scan :: "string list \<Rightarrow> (string \<times> string) list" where
  "dialogues_scan lines = di_chunks (dialogues_finish (fold dialogues_step lines dialogues_init))"

definition dialogues_pairs :: "string \<Rightarrow> (string \<times> string) list" where
  "dialogues_pairs text0 =
     (case find_str text0 ''THE FIRST BOOK OF THE DIALOGUES'' of
        None \<Rightarrow> []
      | Some start_pos \<Rightarrow>
          let filtered_text =
                (case find_str text0 dialogues_end_marker of
                   None \<Rightarrow> slice_from text0 start_pos
                 | Some end_pos \<Rightarrow> slice text0 start_pos (end_pos + length dialogues_end_marker));
              filtered_text' = re_sub_empty re_anchor filtered_text;
              filtered_text'' = re_sub_empty re_sup filtered_text'
          in dialogues_scan (split_on nl filtered_text''))"

definition chunk_seneca_dialogues ::
  "(nat \<Rightarrow> string) \<Rightarrow> nat \<Rightarrow> string \<Rightarrow> string \<Rightarrow> string \<Rightarrow> chunk list \<times> nat" where
  "chunk_seneca_dialogues uuid4 k text0 author work =
     create_chunk_objects uuid4 k (dialogues_pairs text0) author work"


section \<open>The Epictetus scanner\<close>

definition epictetus_end_markers :: "string list" where
  "epictetus_end_markers =
     [[CHR 0x22] @ ''Anytus and Melitus may kill me indeed; but hurt me they cannot.'' @ [CHR 0x22],
      [CHR 0x22] @ ''Anytus and Melitus may kill me indeed; but hurt me they cannot.'' @ [CHR 0x22],
      ''Anytus and Melitus may kill me indeed; but hurt me they cannot.'']"

definition epictetus_numerals :: "string list" where
  "epictetus_numerals =
     [''I'', ''II'', ''III'', ''IV'', ''V'', ''VI'', ''VII'', ''VIII'', ''IX'', ''X'',
      ''XI'', ''XII'', ''XIII'', ''XIV'', ''XV'', ''XVI'', ''XVII'', ''XVIII'', ''XIX'', ''XX'',
      ''XXI'', ''XXII'', ''XXIII'', ''XXIV'', ''XXV'', ''XXVI'', ''XXVII'', ''XXVIII'', ''XXIX'', ''XXX'',
      ''XXXI'', ''XXXII'', ''XXXIII'', ''XXXIV'', ''XXXV'', ''XXXVI'', ''XXXVII'', ''XXXVIII'', ''XXXIX'', ''XL'',
      ''XLI'', ''XLII'', ''XLIII'', ''XLIV'', ''XLV'', ''XLVI'', ''XLVII'', ''XLVIII'', ''XLIX'', ''L'', ''LI'', ''LII'', ''LIII'',
      ''LIV'', ''LV'', ''LVI'', ''LVII'', ''LVIII'']"

definition epictetus_skip :: "string list" where
  "epictetus_skip = [''project gutenberg'', ''contents'', ''http://'', ''footnote'']"

text \<open>
  The loop over the end markers: the text is cut after the first marker of the list
  that occurs in it.
\<close>

fun trim_end :: "string list \<Rightarrow> string \<Rightarrow> string" where
  "trim_end [] text0 = text0"
| "trim_end (end_marker # ms) text0 =
     (case find_str text0 end_marker of
        Some end_pos \<Rightarrow> take (end_pos + length end_marker) text0
      | None \<Rightarrow> trim_end ms text0)"

record epictetus_state =
  ep_chunks :: "(string \<times> string) list"
  ep_section :: string
  ep_content :: "string list"

definition epictetus_flush :: "epictetus_state \<Rightarrow> epictetus_state" where
  "epictetus_flush st =
     (if ep_section st \<noteq> [] \<and> ep_content st \<noteq> [] then
        let full_text = join [nl, nl] (ep_content st) in
        if length full_text > 50
        then st\<lparr>ep_chunks := ep_chunks st @ [(ep_section st, full_text)]\<rparr>
        else st
      else st)"

definition epictetus_step :: "string \<Rightarrow> epictetus_state \<Rightarrow> epictetus_state" where
  "epictetus_step para0 st =
     (let para = strip para0 in
      if para = [] then st
      else if list_ex (\<lambda>skip. contains (lower para) skip) epictetus_skip then st
      else if para \<in> set epictetus_numerals then
        (epictetus_flush st)\<lparr>ep_section := ''Section '' @ para, ep_content := []\<rparr>
      else if ep_section st \<noteq> [] \<and> length para > 50 then
        st\<lparr>ep_content := ep_content st @ [para]\<rparr>
      else st)"

definition epictetus_scan :: "string list \<Rightarrow> (string \<times> string) list" where
  "epictetus_scan paragraphs =
     ep_chunks (epictetus_flush (fold epictetus_step paragraphs
       \<lparr>ep_chunks = [], ep_section = ''Section I'', ep_content = []\<rparr>))"

definition epictetus_pairs :: "string \<Rightarrow> (string \<times> string) list" where
  "epictetus_pairs text0 =
     (let text1 = (case find_str text0 ''There are things which are within our power'' of
                     Some start_pos \<Rightarrow> slice_from text0 start_pos
                   | None \<Rightarrow> text0);
          text2 = trim_end epictetus_end_markers text1
      in epictetus_scan (split_nlnl text2))"

definition chunk_epictetus ::
  "(nat \<Rightarrow> string) \<Rightarrow> nat \<Rightarrow> string \<Rightarrow> string \<Rightarrow> string \<Rightarrow> chunk list \<times> nat" where
  "chunk_epictetus uuid4 k text0 author work =
     create_chunk_objects uuid4 k (epictetus_pairs text0) author work"


section \<open>The Nietzsche scanner\<close>

definition nietzsche_numerals :: "string list" where
  "nietzsche_numerals =
     [''I'', ''II'', ''III'', ''IV'', ''V'', ''VI'', ''VII'', ''VIII'', ''IX'', ''X'',
      ''XI'', ''XII'', ''XIII'', ''XIV'', ''XV'', ''XVI'', ''XVII'', ''XVIII'', ''XIX'', ''XX'',
      ''XXI'', ''XXII'', ''XXIII'', ''XXIV'', ''XXV'', ''XXVI'', ''XXVII'', ''XXVIII'', ''XXIX'', ''XXX'',
      ''XXXI'', ''XXXII'', ''XXXIII'', ''XXXIV'', ''XXXV'', ''XXXVI'', ''XXXVII'', ''XXXVIII'', ''XXXIX'', ''XL'',
      ''XLI'', ''XLII'', ''XLIII'', ''XLIV'', ''XLV'', ''XLVI'', ''XLVII'', ''XLVIII'', ''XLIX'', ''L'',
      ''LI'', ''LII'', ''LIII'', ''LIV'', ''LV'', ''LVI'', ''LVII'', ''LVIII'', ''LIX'', ''LX'',
      ''LXI'', ''LXII'', ''LXIII'', ''LXIV'', ''LXV'', ''LXVI'', ''LXVII'', ''LXVIII'', ''LXIX'', ''LXX'',
      ''LXXI'', ''LXXII'', ''LXXIII'', ''LXXIV'', ''LXXV'', ''LXXVI'', ''LXXVII'', ''LXXVIII'', ''LXXIX'', ''LXXX'']"

record nietzsche_state =
  ni_chunks :: "(string \<times> string) list"
  ni_chapter :: "string option"
  ni_chapter_title :: "string option"
  ni_content :: "string list"

definition nietzsche_flush :: "nietzsche_state \<Rightarrow> nietzsche_state" where
  "nietzsche_flush st =
     (if truthy (ni_chapter st) \<and> ni_content st \<noteq> [] then
        let full_text = strip (join [nl] (ni_content st)) in
        if length full_text > 100 then
          st\<lparr>ni_chunks := ni_chunks st @
               [(''Chapter '' @ fmt (ni_chapter st) @ '' - '' @ fmt (ni_chapter_title st), full_text)]\<rparr>
        else st
      else st)"

text \<open>
  \<open>line.split('.', 1)\<close> has two parts when the line has a period: the text before the
  first period and the text after it.  \<open>s.rstrip('.')\<close> removes the periods at the end.
\<close>

definition before_dot :: "string \<Rightarrow> string" where
  "before_dot s = takeWhile (\<lambda>c. c \<noteq> CHR ''.'') s"

definition after_dot :: "string \<Rightarrow> string" where
  "after_dot s = tl (dropWhile (\<lambda>c. c \<noteq> CHR ''.'') s)"

definition rstrip_dots :: "string \<Rightarrow> string" where
  "rstrip_dots s = rev (dropWhile (\<lambda>c. c = CHR ''.'') (rev s))"

definition nietzsche_header :: "string \<Rightarrow> bool" where
  "nietzsche_header line =
     (line \<noteq> [] \<and> CHR ''.'' \<in> set line \<and> strip (before_dot line) \<in> set nietzsche_numerals)"

definition nietzsche_step :: "string \<Rightarrow> nietzsche_state \<Rightarrow> nietzsche_state" where
  "nietzsche_step l st =
     (let line = strip l in
      if nietzsche_header line then
        (nietzsche_flush st)\<lparr>ni_chapter := Some (strip (before_dot line)),
                             ni_chapter_title := Some (rstrip_dots (strip (after_dot line))),
                             ni_content := []\<rparr>
      else if line = [] \<or> length line < 10 then
        (if ni_content st \<noteq> [] then st\<lparr>ni_content := ni_content st @ [line]\<rparr> else st)
      else if list_ex (\<lambda>skip. contains (lower line) skip) boilerplate then st
      else if truthy (ni_chapter st) then st\<lparr>ni_content := ni_content st @ [line]\<rparr>
      else st)"

definition nietzsche_scan :: "string list \<Rightarrow> (string \<times> string) list" where
  "nietzsche_scan lines =
     ni_chunks (nietzsche_flush (fold nietzsche_step lines
       \<lparr>ni_chunks = [], ni_chapter = None, ni_chapter_title = None, ni_content = []\<rparr>))"

definition nietzsche_pairs :: "string \<Rightarrow> (string \<times> string) list" where
  "nietzsche_pairs text0 =
     (case find_str text0 ''I. THE THREE METAMORPHOSES.'' of
        None \<Rightarrow> []
      | Some start_pos \<Rightarrow>
          let filtered_text =
                (case find_str text0 ''coming out of gloomy mountains'' of
                   None \<Rightarrow> slice_from text0 start_pos
                 | Some end_pos \<Rightarrow>
                     (case find_from text0 ''.'' end_pos of
                        Some end_pos' \<Rightarrow> slice text0 start_pos (end_pos' + 1)
                      | None \<Rightarrow> slice_from text0 start_pos))
          in nietzsche_scan (split_on nl filtered_text))"

definition chunk_nietzsche ::
  "(nat \<Rightarrow> string) \<Rightarrow> nat \<Rightarrow> string \<Rightarrow> string \<Rightarrow> string \<Rightarrow> chunk list \<times> nat" where
  "chunk_nietzsche uuid4 k text0 author work =
     create_chunk_objects uuid4 k (nietzsche_pairs text0) author work"


section \<open>The router\<close>

text \<open>
  \<open>chunk_text\<close> calls \<open>chunk_plato_republic\<close> for a title with \<open>Republic\<close> in it.  The
  module defines no function of that name and imports none, so Python raises
  \<open>NameError\<close> when the call is evaluated.
\<close>

datatype error = NameError string

definition chunk_text ::
  "(nat \<Rightarrow> string) \<Rightarrow> nat \<Rightarrow> string \<Rightarrow> string \<Rightarrow> string \<Rightarrow> error + chunk list \<times> nat" where
  "chunk_text uuid4 k text0 author work =
     (let text1 = extract_content text0 in
      if contains work ''Meditations'' then Inr (chunk_marcus_meditations uuid4 k text1 author work)
      else if contains work ''Morals'' then Inr (chunk_seneca_morals uuid4 k text1 author work)
      else if contains work ''Dialogues'' \<or> contains work ''Epistles''
        then Inr (chunk_seneca_dialogues uuid4 k text1 author work)
      else if contains work ''Enchiridion'' then Inr (chunk_epictetus uuid4 k text1 author work)
      else if contains work ''Republic'' then Inl (NameError ''chunk_plato_republic'')
      else if contains work ''Zarathustra'' then Inr (chunk_nietzsche uuid4 k text1 author work)
      else Inr (chunk_seneca_morals uuid4 k text1 author work))"


section \<open>The quote hash of the scraper\<close>





section \<open>Notions used in the statements\<close>

text \<open>The section label and the text of each chunk record, in order.\<close>

definition labelled :: "chunk list \<Rightarrow> (string \<times> string) list" where
  "labelled cs = map (\<lambda>c. (c_section c, c_text c)) cs"

text \<open>Every pair of a list of (label, text) pairs has a text of more than \<open>n\<close> characters.\<close>

definition long_enough :: "nat \<Rightarrow> (string \<times> string) list \<Rightarrow> bool" where
  "long_enough n cs = list_all (\<lambda>p. n < length (snd p)) cs"

text \<open>
  The Roman numeral of a number below 90, in the usual subtractive notation.  The
  lookup lists of the scanners are compared with it.
\<close>

function roman :: "nat \<Rightarrow> string" where
  "roman n =
     (if 50 \<le> n then ''L'' @ roman (n - 50)
      else if 40 \<le> n then ''XL'' @ roman (n - 40)
      else if 10 \<le> n then ''X'' @ roman (n - 10)
      else if 9 \<le> n then ''IX'' @ roman (n - 9)
      else if 5 \<le> n then ''V'' @ roman (n - 5)
      else if 4 \<le> n then ''IV'' @ roman (n - 4)
      else if 1 \<le> n then ''I'' @ roman (n - 1)
      else [])"
  by pat_completeness auto
termination
  by (relation "measure id") auto

text \<open>
  The text of the Marcus scenario: each book heading is directly followed by its first
  section.  In the second text a blank line follows each heading, as it does in the
  text that \<open>fetch_gutenberg_text\<close> builds, which appends two line feeds to every
  heading element.
\<close>

definition marcus_scenario :: string where
  "marcus_scenario =
     ''PREFACE...'' @ [nl] @ ''THE FIRST BOOK'' @ [nl] @ ''I. Of my grandfather, Something.'' @ [nl]
     @ ''More text.'' @ [nl, nl] @ ''THE SECOND BOOK'' @ [nl] @ ''I. Another.'' @ [nl]"

definition marcus_scenario_blank :: string where
  "marcus_scenario_blank =
     ''PREFACE...'' @ [nl] @ ''THE FIRST BOOK'' @ [nl, nl] @ ''I. Of my grandfather, Something.'' @ [nl]
     @ ''More text.'' @ [nl, nl] @ ''THE SECOND BOOK'' @ [nl, nl] @ ''I. Another.'' @ [nl]"

text \<open>A book header of the Seneca's Dialogues scanner, of either of its two forms.\<close>

definition is_book_header :: "string \<Rightarrow> bool" where
  "is_book_header line = (book_match line \<or> special_book line)"





text \<open>
  Four lines for the Seneca's Dialogues scanner: a book header, a first numbered
  paragraph, a footnote, and a second numbered paragraph after the footnote.
\<close>

definition dialogues_example :: "string list" where
  "dialogues_example =
     [''THE FIRST BOOK OF THE DIALOGUES'', ''I. '' @ replicate 120 CHR ''a'', ''[1] A note.'',
      ''II. '' @ replicate 120 CHR ''b'']"


section \<open>Properties of the chunk emitter\<close>

lemma map_fst_zip_fun: "length xs = length ys \<Longrightarrow> map (\<lambda>x. g (fst x)) (zip xs ys) = map g xs"
  by (induction xs ys rule: list_induct2) simp_all

lemma map_snd_zip_fun: "length xs = length ys \<Longrightarrow> map (\<lambda>x. g (snd x)) (zip xs ys) = map g ys"
  by (induction xs ys rule: list_induct2) simp_all

lemma labelled_create_chunk_objects:
  "labelled (fst (create_chunk_objects uuid4 k chunks author work)) = chunks"
  by (simp add: labelled_def create_chunk_objects_def mk_chunk_def enumerate_eq_zip comp_def
      split_def map_snd_zip_fun[where g="\<lambda>p. (fst p, snd p)"])

text \<open>
  C7.  \<open>create_chunk_objects\<close> returns one record for each input pair, in the order of
  the input: the sections and the texts of the records are those of the pairs, the
  chunk indices are \<open>0, 1, ..., n - 1\<close>, author and work are the ones given, and the
  identifier of the record at position \<open>i\<close> is the result of its own call of the
  generator, the call number \<open>k + i\<close> of the run; after the function \<open>n\<close> more calls
  have been made.
\<close>

theorem create_chunk_objects_indices:
  "map c_chunk_index (fst (create_chunk_objects uuid4 k chunks author work)) = [0..<length chunks]
   \<and> map c_section (fst (create_chunk_objects uuid4 k chunks author work)) = map fst chunks
   \<and> map c_text (fst (create_chunk_objects uuid4 k chunks author work)) = map snd chunks
   \<and> map c_id (fst (create_chunk_objects uuid4 k chunks author work))
       = map (\<lambda>i. uuid4 (k + i)) [0..<length chunks]
   \<and> map c_author (fst (create_chunk_objects uuid4 k chunks author work))
       = replicate (length chunks) author
   \<and> map c_work (fst (create_chunk_objects uuid4 k chunks author work))
       = replicate (length chunks) work
   \<and> snd (create_chunk_objects uuid4 k chunks author work) = k + length chunks"
  by (simp add: create_chunk_objects_def mk_chunk_def enumerate_eq_zip comp_def split_def
      map_replicate_const map_fst_zip_fun map_fst_zip_fun[where g="\<lambda>i. uuid4 (k + i)"]
      map_snd_zip_fun[where g="\<lambda>p. fst p"] map_snd_zip_fun[where g="\<lambda>p. snd p"])


section \<open>The Marcus scenario\<close>

text \<open>
  C1, as stated, fails.  In the scenario text the heading \<open>THE FIRST BOOK\<close> and the
  section under it are one paragraph, since only a blank line separates paragraphs.
  The scanner takes a paragraph whose first line is a book heading as the heading and
  goes on to the next paragraph, so it emits no chunk at all, and not two.
\<close>

theorem marcus_scenario_not_two:
  "length (marcus_pairs (extract_content marcus_scenario)) \<noteq> 2"
  by code_simp

text \<open>
  C1, amended.  On the scenario text the scanner emits no chunk.  On the same text with
  a blank line after each book heading it emits exactly the two chunks
  \<open>THE FIRST BOOK - Section I\<close> and \<open>THE SECOND BOOK - Section I\<close>, in this order,
  each with the text of the paragraph that starts with the Roman numeral, and the
  preface is in neither.
\<close>

theorem marcus_scenario_blank_lines:
  "labelled (fst (chunk_marcus_meditations uuid4 k (extract_content marcus_scenario) author work))
     = []
   \<and> labelled (fst (chunk_marcus_meditations uuid4 k (extract_content marcus_scenario_blank)
                      author work))
     = [(''THE FIRST BOOK - Section I'', ''I. Of my grandfather, Something.'' @ [nl] @ ''More text.''),
        (''THE SECOND BOOK - Section I'', ''I. Another.'')]"
proof -
  have "marcus_pairs (extract_content marcus_scenario) = []"
    by code_simp
  moreover have "marcus_pairs (extract_content marcus_scenario_blank)
     = [(''THE FIRST BOOK - Section I'', ''I. Of my grandfather, Something.'' @ [nl] @ ''More text.''),
        (''THE SECOND BOOK - Section I'', ''I. Another.'')]"
    by code_simp
  ultimately show ?thesis
    by (simp only: chunk_marcus_meditations_def labelled_create_chunk_objects simp_thms)
qed


section \<open>The router\<close>

lemma republic_keywords:
  "\<not> contains ''The Republic'' ''Meditations''"
  "\<not> contains ''The Republic'' ''Morals''"
  "\<not> contains ''The Republic'' ''Dialogues''"
  "\<not> contains ''The Republic'' ''Epistles''"
  "\<not> contains ''The Republic'' ''Enchiridion''"
  "contains ''The Republic'' ''Republic''"
  by code_simp+

text \<open>
  C5.  For the title \<open>The Republic\<close> the router reaches the call of
  \<open>chunk_plato_republic\<close>, whatever the text and the author are, and the call raises
  \<open>NameError\<close>: no chunk sequence is returned.
\<close>

theorem chunk_text_republic_raises:
  "chunk_text uuid4 k text0 author ''The Republic'' = Inl (NameError ''chunk_plato_republic'')"
  by (simp add: chunk_text_def republic_keywords Let_def)

text \<open>
  The same holds for every title that has \<open>Republic\<close> in it and none of the keywords
  that the router tests before it; a title with one of those goes to the scanner of
  that keyword.
\<close>

lemma chunk_text_republic_branch:
  assumes "\<not> contains work ''Meditations''" "\<not> contains work ''Morals''"
      and "\<not> contains work ''Dialogues''" "\<not> contains work ''Epistles''"
      and "\<not> contains work ''Enchiridion''" "contains work ''Republic''"
  shows "chunk_text uuid4 k text0 author work = Inl (NameError ''chunk_plato_republic'')"
  using assms by (simp add: chunk_text_def Let_def)

lemma morals_keywords:
  "\<not> contains ''Seneca's Morals'' ''Meditations''"
  "contains ''Seneca's Morals'' ''Morals''"
  by code_simp+

lemma unknown_keywords:
  "\<not> contains ''Some Unknown Work'' ''Meditations''"
  "\<not> contains ''Some Unknown Work'' ''Morals''"
  "\<not> contains ''Some Unknown Work'' ''Dialogues''"
  "\<not> contains ''Some Unknown Work'' ''Epistles''"
  "\<not> contains ''Some Unknown Work'' ''Enchiridion''"
  "\<not> contains ''Some Unknown Work'' ''Republic''"
  "\<not> contains ''Some Unknown Work'' ''Zarathustra''"
  by code_simp+

text \<open>
  C9.  For the title \<open>Seneca's Morals\<close> the router runs \<open>chunk_seneca_morals\<close> on the
  extracted content, and for the title \<open>Some Unknown Work\<close>, which has none of the
  keywords, it runs the same function; so for every text the two calls give the same
  (label, text) pairs, those of the Seneca's Morals scanner.
\<close>

theorem chunk_text_morals_and_fallback:
  "chunk_text uuid4 k text0 author ''Seneca's Morals''
     = Inr (chunk_seneca_morals uuid4 k (extract_content text0) author ''Seneca's Morals'')
   \<and> chunk_text uuid4 k text0 author ''Some Unknown Work''
     = Inr (chunk_seneca_morals uuid4 k (extract_content text0) author ''Some Unknown Work'')
   \<and> labelled (fst (chunk_seneca_morals uuid4 k (extract_content text0) author ''Seneca's Morals''))
     = morals_pairs (extract_content text0)
   \<and> labelled (fst (chunk_seneca_morals uuid4 k (extract_content text0) author ''Some Unknown Work''))
     = morals_pairs (extract_content text0)"
  by (simp add: chunk_text_def morals_keywords unknown_keywords Let_def chunk_seneca_morals_def
      labelled_create_chunk_objects)


section \<open>The Roman numeral lists\<close>

text \<open>
  C6, as stated, fails: the lists of the Marcus and of the Epictetus scanner end at
  \<open>LVIII\<close> and have neither \<open>LIX\<close> nor \<open>LX\<close>.
\<close>

theorem numerals_marcus_epictetus_short:
  "''LIX'' \<notin> set marcus_numerals \<and> ''LX'' \<notin> set marcus_numerals
   \<and> ''LIX'' \<notin> set epictetus_numerals \<and> ''LX'' \<notin> set epictetus_numerals"
  by code_simp

lemma numerals_lists:
  "marcus_numerals = map roman [1..<59]"
  "epictetus_numerals = map roman [1..<59]"
  "dialogues_numerals = map roman [1..<61]"
  "nietzsche_numerals = map roman [1..<81]"
  "length nietzsche_numerals = 80"
  by code_simp+

text \<open>
  The lookup at work at the end of each list.  The Epictetus scanner compares the whole
  paragraph with the list, so \<open>LVIII\<close> alone opens a section, while \<open>LIX\<close> alone and
  a paragraph that starts with \<open>II.\<close> do not.  The other three compare the text before
  the first period: \<open>LVIII.\<close> opens a Marcus section and \<open>LIX.\<close> does not, \<open>LX.\<close>
  opens a Dialogues paragraph and \<open>LXI.\<close> is read as text, \<open>LXXX.\<close> opens a Nietzsche
  chapter and \<open>LXXXI.\<close> is read as text.
\<close>

lemma numerals_lookup_epictetus:
  "epictetus_scan [replicate 51 CHR ''a'', ''LVIII'', replicate 51 CHR ''b'']
     = [(''Section I'', replicate 51 CHR ''a''), (''Section LVIII'', replicate 51 CHR ''b'')]"
  "epictetus_scan [replicate 51 CHR ''a'', ''LIX'', replicate 51 CHR ''b'']
     = [(''Section I'', replicate 51 CHR ''a'' @ [nl, nl] @ replicate 51 CHR ''b'')]"
  "epictetus_scan [replicate 51 CHR ''a'', ''II. '' @ replicate 51 CHR ''b'']
     = [(''Section I'', replicate 51 CHR ''a'' @ [nl, nl] @ ''II. '' @ replicate 51 CHR ''b'')]"
  by code_simp+

lemma numerals_lookup_others:
  "ma_chunks (fold marcus_step [''THE FIRST BOOK'', ''LVIII. Text'', ''LIX. Text'']
                \<lparr>ma_chunks = [], ma_current_book = None\<rparr>)
     = [(''THE FIRST BOOK - Section LVIII'', ''LVIII. Text'')]"
  "dialogues_scan [''THE FIRST BOOK OF THE DIALOGUES'', ''LX. '' @ replicate 100 CHR ''a'',
                   ''LXI. '' @ replicate 100 CHR ''b'']
     = [(''THE FIRST BOOK OF THE DIALOGUES - Paragraph LX'',
         ''LX. '' @ replicate 100 CHR ''a'' @ [nl] @ ''LXI. '' @ replicate 100 CHR ''b'')]"
  "nietzsche_scan [''LXXX. THE SIGN.'', replicate 101 CHR ''a'', ''LXXXI. THE END.'',
                   replicate 101 CHR ''b'']
     = [(''Chapter LXXX - THE SIGN'',
         replicate 101 CHR ''a'' @ [nl] @ ''LXXXI. THE END.'' @ [nl] @ replicate 101 CHR ''b'')]"
  by code_simp+

text \<open>
  C6, amended.  The list of the Marcus scanner and the list of the Epictetus scanner
  are the numerals of 1 to 58 in order, the list of the Seneca's Dialogues scanner
  the numerals of 1 to 60, and the list of the Nietzsche scanner, the largest, the
  numerals of 1 to 80.  A numeral is found by string equality with an entry of the
  list: the whole paragraph in the Epictetus scanner, the text before the first period
  in the other three.
\<close>

theorem numerals_ranges:
  "marcus_numerals = map roman [1..<59]
   \<and> epictetus_numerals = map roman [1..<59]
   \<and> dialogues_numerals = map roman [1..<61]
   \<and> nietzsche_numerals = map roman [1..<81]
   \<and> length nietzsche_numerals = 80
   \<and> epictetus_scan [replicate 51 CHR ''a'', ''LVIII'', replicate 51 CHR ''b'']
       = [(''Section I'', replicate 51 CHR ''a''), (''Section LVIII'', replicate 51 CHR ''b'')]
   \<and> epictetus_scan [replicate 51 CHR ''a'', ''LIX'', replicate 51 CHR ''b'']
       = [(''Section I'', replicate 51 CHR ''a'' @ [nl, nl] @ replicate 51 CHR ''b'')]
   \<and> epictetus_scan [replicate 51 CHR ''a'', ''II. '' @ replicate 51 CHR ''b'']
       = [(''Section I'', replicate 51 CHR ''a'' @ [nl, nl] @ ''II. '' @ replicate 51 CHR ''b'')]
   \<and> ma_chunks (fold marcus_step [''THE FIRST BOOK'', ''LVIII. Text'', ''LIX. Text'']
                  \<lparr>ma_chunks = [], ma_current_book = None\<rparr>)
       = [(''THE FIRST BOOK - Section LVIII'', ''LVIII. Text'')]
   \<and> dialogues_scan [''THE FIRST BOOK OF THE DIALOGUES'', ''LX. '' @ replicate 100 CHR ''a'',
                     ''LXI. '' @ replicate 100 CHR ''b'']
       = [(''THE FIRST BOOK OF THE DIALOGUES - Paragraph LX'',
           ''LX. '' @ replicate 100 CHR ''a'' @ [nl] @ ''LXI. '' @ replicate 100 CHR ''b'')]
   \<and> nietzsche_scan [''LXXX. THE SIGN.'', replicate 101 CHR ''a'', ''LXXXI. THE END.'',
                     replicate 101 CHR ''b'']
       = [(''Chapter LXXX - THE SIGN'',
           replicate 101 CHR ''a'' @ [nl] @ ''LXXXI. THE END.'' @ [nl] @ replicate 101 CHR ''b'')]"
  by (intro conjI numerals_lists numerals_lookup_epictetus numerals_lookup_others)


section \<open>Stripping and lower case\<close>

lemma is_space_nl: "is_space nl"
  by code_simp








lemma lstrip_pad: "list_all is_space w \<Longrightarrow> lstrip (w @ s) = lstrip s"
  by (simp add: lstrip_def dropWhile_append2 list_all_iff)





lemma strip_nl: "strip (nl # s) = strip s"
  using lstrip_pad[of "[nl]" s] by (simp add: strip_def is_space_nl)





section \<open>The quote hash\<close>




section \<open>The boundary locator\<close>

text \<open>
  \<open>find_str\<close> returns the first place at which the string occurs, and \<open>None\<close> when it
  occurs nowhere.
\<close>

lemma startswith_take: "startswith s p = (take (length p) s = p)"
  by (induction s p rule: startswith.induct) auto

lemma find_str_occurs:
  "find_str s sub = Some i \<Longrightarrow> take (length sub) (drop i s) = sub"
proof (induction s arbitrary: i)
  case Nil
  then show ?case by (simp split: if_splits)
next
  case (Cons c cs)
  then show ?case
    by (auto simp: startswith_take split: if_splits)
qed

lemma find_str_first:
  "find_str s sub = Some i \<Longrightarrow> j < i \<Longrightarrow> take (length sub) (drop j s) \<noteq> sub"
proof (induction s arbitrary: i j)
  case Nil
  then show ?case by (simp split: if_splits)
next
  case (Cons c cs)
  show ?case
  proof (cases "startswith (c # cs) sub")
    case True
    with Cons.prems show ?thesis by simp
  next
    case False
    with Cons.prems obtain i' where i': "find_str cs sub = Some i'" "i = Suc i'"
      by auto
    show ?thesis
    proof (cases j)
      case 0
      with False show ?thesis by (simp add: startswith_take)
    next
      case (Suc j')
      with Cons.prems(2) i' have "j' < i'" by simp
      with Cons.IH[OF i'(1)] Suc show ?thesis by simp
    qed
  qed
qed

lemma find_str_none:
  "find_str s sub = None \<Longrightarrow> take (length sub) (drop j s) \<noteq> sub \<or> length s < j"
proof (induction s arbitrary: j)
  case Nil
  then show ?case by (auto split: if_splits)
next
  case (Cons c cs)
  then have ns: "\<not> startswith (c # cs) sub" and n: "find_str cs sub = None"
    by (auto split: if_splits)
  show ?case
  proof (cases j)
    case 0
    with ns show ?thesis by (simp add: startswith_take)
  next
    case (Suc j')
    with Cons.IH[OF n, of j'] show ?thesis by auto
  qed
qed

lemma find_str_single: "x \<notin> set a \<Longrightarrow> find_str (a @ x # b) [x] = Some (length a)"
  by (induction a) auto

lemma start_marker_no_nl: "nl \<notin> set ''*** START OF''"
  by code_simp

lemma locate_line_end:
  assumes t: "t = pre @ m @ hdr @ [nl] @ body @ rest"
      and m: "nl \<notin> set m" and hdr: "nl \<notin> set hdr"
  shows "find_from t [nl] (length pre) = Some (length (pre @ m @ hdr))"
    and "slice t (length (pre @ m @ hdr)) (length (pre @ m @ hdr @ [nl] @ body)) = nl # body"
proof -
  have d: "drop (length pre) t = (m @ hdr) @ nl # (body @ rest)"
    by (simp add: t)
  have "nl \<notin> set (m @ hdr)"
    using m hdr by simp
  then have "find_str (drop (length pre) t) [nl] = Some (length (m @ hdr))"
    unfolding d by (rule find_str_single)
  moreover have "length pre \<le> length t"
    by (simp add: t)
  ultimately show "find_from t [nl] (length pre) = Some (length (pre @ m @ hdr))"
    by (simp add: find_from_def)
  have "take (length (pre @ m @ hdr @ [nl] @ body)) t = pre @ m @ hdr @ nl # body"
    by (simp add: t)
  then show "slice t (length (pre @ m @ hdr)) (length (pre @ m @ hdr @ [nl] @ body)) = nl # body"
    unfolding slice_def by simp
qed

lemma extract_content_both:
  assumes t: "t = pre @ ''*** START OF'' @ hdr @ [nl] @ body @ ''*** END OF'' @ post"
      and s: "find_str t ''*** START OF'' = Some (length pre)"
      and e: "find_str t ''*** END OF'' = Some (length (pre @ ''*** START OF'' @ hdr @ [nl] @ body))"
      and hdr: "nl \<notin> set hdr"
  shows "extract_content t = strip body"
  using s e locate_line_end[OF t start_marker_no_nl hdr]
  by (simp add: extract_content_def Let_def strip_nl del: length_append)

lemma extract_content_no_end:
  "find_str u ''*** END OF'' = None \<Longrightarrow> extract_content u = strip u"
  by (simp add: extract_content_def Let_def split: option.splits)

text \<open>
  C3, as stated, fails in both parts.  With both markers the result starts after the
  line of the start marker, not after the marker, and is stripped: for the first text
  it is \<open>body\<close>, while the text strictly between the markers is \<open> x\<close>, a line feed,
  \<open>body\<close> and a line feed.  With the start marker and no end marker the result is
  the whole text, stripped, and not the text from the start marker on.
\<close>

theorem extract_content_not_between:
  "extract_content (''*** START OF x'' @ [nl] @ ''body'' @ [nl] @ ''*** END OF'') = ''body''
   \<and> ''body'' \<noteq> '' x'' @ [nl] @ ''body'' @ [nl]
   \<and> extract_content ''junk *** START OF x'' = ''junk *** START OF x''
   \<and> ''junk *** START OF x'' \<noteq> ''*** START OF x''"
  by code_simp

text \<open>
  C3, amended.  Let the first start marker be followed by the rest \<open>hdr\<close> of its line,
  a line feed, a text \<open>body\<close> and the first end marker.  Then the result is \<open>body\<close>
  without the white space at its ends.  For a text without the end marker, with or
  without the start marker, the result is the whole text without the white space at
  its ends.
\<close>

theorem extract_content_lines_between:
  "(t = pre @ ''*** START OF'' @ hdr @ [nl] @ body @ ''*** END OF'' @ post
      \<and> find_str t ''*** START OF'' = Some (length pre)
      \<and> find_str t ''*** END OF'' = Some (length (pre @ ''*** START OF'' @ hdr @ [nl] @ body))
      \<and> nl \<notin> set hdr
    \<longrightarrow> extract_content t = strip body)
   \<and> (find_str u ''*** END OF'' = None \<longrightarrow> extract_content u = strip u)"
  using extract_content_both extract_content_no_end by blast

theorem extract_content_lines_between_witness:
  "extract_content (''junk'' @ ''*** START OF'' @ '' x'' @ [nl] @ '' body '' @ ''*** END OF'' @ ''tail'')
     = strip '' body ''
   \<and> extract_content ''junk *** START OF x'' = strip ''junk *** START OF x''"
proof -
  let ?t = "''junk'' @ ''*** START OF'' @ '' x'' @ [nl] @ '' body '' @ ''*** END OF'' @ ''tail''"
  have "find_str ?t ''*** START OF'' = Some (length ''junk'')"
    by code_simp
  moreover have "find_str ?t ''*** END OF''
      = Some (length (''junk'' @ ''*** START OF'' @ '' x'' @ [nl] @ '' body ''))"
    by code_simp
  moreover have "nl \<notin> set '' x''"
    by code_simp
  moreover have "find_str ''junk *** START OF x'' ''*** END OF'' = None"
    by code_simp
  ultimately show ?thesis
    using extract_content_lines_between[of ?t "''junk''" "'' x''" "'' body ''" "''tail''"
        "''junk *** START OF x''"]
    by blast
qed


section \<open>The minimum length of a chunk\<close>

lemma long_enough_simps [simp]:
  "long_enough n []"
  "long_enough n (cs @ ds) = (long_enough n cs \<and> long_enough n ds)"
  "long_enough n [p] = (n < length (snd p))"
  by (simp_all add: long_enough_def)


subsection \<open>Seneca's Morals\<close>








subsection \<open>Seneca's Dialogues\<close>







subsection \<open>Nietzsche\<close>







subsection \<open>Epictetus\<close>







subsection \<open>The claim\<close>




section \<open>Footnotes in the Seneca's Dialogues scanner\<close>

lemma dialogues_numerals_nonempty: "[] \<notin> set dialogues_numerals"
  by code_simp

lemma in_footnotes_update_same: "di_in_footnotes st \<Longrightarrow> st\<lparr>di_in_footnotes := True\<rparr> = st"
  by (cases st) simp

lemma dialogues_emit_fields:
  "di_paragraph (dialogues_emit st) = di_paragraph st"
  "di_paragraph_num (dialogues_emit st) = di_paragraph_num st"
  "di_book (dialogues_emit st) = di_book st"
  "di_in_footnotes (dialogues_emit st) = di_in_footnotes st"
  by (simp_all add: dialogues_emit_def Let_def)

text \<open>An open paragraph always has its number.\<close>

lemma dialogues_numbered_step:
  assumes "di_paragraph st \<noteq> [] \<longrightarrow> truthy (di_paragraph_num st)"
  shows "di_paragraph (dialogues_step l st) \<noteq> []
         \<longrightarrow> truthy (di_paragraph_num (dialogues_step l st))"
  using assms dialogues_numerals_nonempty
  by (auto simp: dialogues_step_def dialogues_new_book_def Let_def dialogues_emit_fields)

lemma dialogues_numbered_fold:
  "di_paragraph (fold dialogues_step ls dialogues_init) \<noteq> []
   \<longrightarrow> truthy (di_paragraph_num (fold dialogues_step ls dialogues_init))"
proof (induction ls rule: rev_induct)
  case Nil
  then show ?case by (simp add: dialogues_init_def)
next
  case (snoc x xs)
  then show ?case using dialogues_numbered_step by simp
qed

text \<open>
  With no book yet, or in the footnotes with no open paragraph, a line that is not a
  book header leaves the state as it is.
\<close>

lemma dialogues_suppressed_step:
  assumes "\<not> is_book_header (strip l)"
      and "\<not> truthy (di_book st) \<or> (di_in_footnotes st \<and> di_paragraph st = [])"
  shows "dialogues_step l st = st"
  using assms
  by (auto simp: dialogues_step_def is_book_header_def Let_def in_footnotes_update_same)

lemma dialogues_suppressed_fold:
  assumes "list_all (\<lambda>l. \<not> is_book_header (strip l)) ls"
      and "\<not> truthy (di_book st) \<or> (di_in_footnotes st \<and> di_paragraph st = [])"
  shows "fold dialogues_step ls st = st"
  using assms by (induction ls) (simp_all add: dialogues_suppressed_step)

lemma dialogues_enter_footnotes:
  assumes "di_paragraph st \<noteq> [] \<longrightarrow> truthy (di_paragraph_num st)"
      and "\<not> is_book_header (strip f)" and "footnote_line (strip f)"
  shows "\<not> truthy (di_book (dialogues_step f st))
         \<or> (di_in_footnotes (dialogues_step f st) \<and> di_paragraph (dialogues_step f st) = [])"
  using assms
  by (auto simp: dialogues_step_def is_book_header_def Let_def dialogues_emit_fields)

lemma dialogues_footnote_region:
  assumes "footnote_line (strip f)" "\<not> is_book_header (strip f)"
      and "list_all (\<lambda>l. \<not> is_book_header (strip l)) ls"
  shows "fold dialogues_step (pre @ f # ls) dialogues_init
         = fold dialogues_step (pre @ [f]) dialogues_init"
proof -
  let ?st = "fold dialogues_step pre dialogues_init"
  have "\<not> truthy (di_book (dialogues_step f ?st))
        \<or> (di_in_footnotes (dialogues_step f ?st) \<and> di_paragraph (dialogues_step f ?st) = [])"
    using dialogues_numbered_fold[of pre] assms(1,2) by (intro dialogues_enter_footnotes)
  then have "fold dialogues_step ls (dialogues_step f ?st) = dialogues_step f ?st"
    using assms(3) by (intro dialogues_suppressed_fold)
  then show ?thesis by simp
qed

lemma dialogues_header_ends:
  assumes "is_book_header (strip h)"
  shows "\<not> di_in_footnotes (dialogues_step h st)"
    and "di_paragraph (dialogues_step h st) = []"
    and "di_paragraph_num (dialogues_step h st) = None"
  using assms
  by (auto simp: dialogues_step_def is_book_header_def Let_def dialogues_new_book_def)

text \<open>
  C4, as stated, fails: a Roman numeral line does not end the footnotes.  In the
  example the paragraph \<open>II.\<close> follows the footnote; the scanner emits the paragraph
  \<open>I.\<close> only and is still in the footnotes at the end.
\<close>

theorem dialogues_numeral_in_footnotes_dropped:
  "dialogues_scan dialogues_example
     = [(''THE FIRST BOOK OF THE DIALOGUES - Paragraph I'', ''I. '' @ replicate 120 CHR ''a'')]
   \<and> dialogues_pairs (join [nl] dialogues_example)
     = [(''THE FIRST BOOK OF THE DIALOGUES - Paragraph I'', ''I. '' @ replicate 120 CHR ''a'')]
   \<and> di_in_footnotes (fold dialogues_step dialogues_example dialogues_init)"
  by code_simp

text \<open>
  C4, amended.  Let \<open>f\<close> be a line with a footnote number at its start that is not a
  book header, read after any lines \<open>pre\<close>, and let no line of \<open>ls\<close> be a book header.
  Then the lines \<open>ls\<close> after \<open>f\<close> change nothing: the state after them is the state
  after \<open>f\<close>, and the chunks of the scan are the same with and without them.  This
  includes the lines of \<open>ls\<close> that start with a Roman numeral.  A book header, of
  either form, ends the footnotes and leaves no paragraph open.
\<close>

theorem dialogues_footnotes_until_book:
  "(footnote_line (strip f) \<and> \<not> is_book_header (strip f)
      \<and> list_all (\<lambda>l. \<not> is_book_header (strip l)) ls
    \<longrightarrow> fold dialogues_step (pre @ f # ls) dialogues_init
          = fold dialogues_step (pre @ [f]) dialogues_init
        \<and> dialogues_scan (pre @ f # ls) = dialogues_scan (pre @ [f]))
   \<and> (is_book_header (strip h)
    \<longrightarrow> \<not> di_in_footnotes (dialogues_step h st)
        \<and> di_paragraph (dialogues_step h st) = []
        \<and> di_paragraph_num (dialogues_step h st) = None)"
  using dialogues_footnote_region[of f ls pre] dialogues_header_ends[of h st]
  by (simp add: dialogues_scan_def)

theorem dialogues_footnotes_until_book_witness:
  "fold dialogues_step
       ([''THE FIRST BOOK OF THE DIALOGUES'', ''I. '' @ replicate 120 CHR ''a'']
        @ ''[1] A note.'' # [''II. '' @ replicate 120 CHR ''b'']) dialogues_init
     = fold dialogues_step
       ([''THE FIRST BOOK OF THE DIALOGUES'', ''I. '' @ replicate 120 CHR ''a'']
        @ [''[1] A note.'']) dialogues_init
   \<and> \<not> di_in_footnotes (dialogues_step ''THE SECOND BOOK OF THE DIALOGUES''
          (fold dialogues_step dialogues_example dialogues_init))"
proof -
  have "footnote_line (strip ''[1] A note.'')"
    by code_simp
  moreover have "\<not> is_book_header (strip ''[1] A note.'')"
    by code_simp
  moreover have "list_all (\<lambda>l. \<not> is_book_header (strip l)) [''II. '' @ replicate 120 CHR ''b'']"
    by code_simp
  moreover have "is_book_header (strip ''THE SECOND BOOK OF THE DIALOGUES'')"
    by code_simp
  ultimately show ?thesis
    using dialogues_footnotes_until_book[of "''[1] A note.''"
        "[''II. '' @ replicate 120 CHR ''b'']"
        "[''THE FIRST BOOK OF THE DIALOGUES'', ''I. '' @ replicate 120 CHR ''a'']"
        "''THE SECOND BOOK OF THE DIALOGUES''"
        "fold dialogues_step dialogues_example dialogues_init"]
    by blast
qed


section \<open>Table-of-contents entries in the Seneca's Morals scanner\<close>









text \<open>
  What the statement below leaves open is a header without a title that no marker
  follows.  The block after the loop then saves the buffer of a main section with
  \<open>CLEMENCY\<close> in its name, chapter or not, so there the lines after the header are
  emitted under the name of the section; in any other section they are not.
\<close>

lemma morals_toc_entry_at_end:
  "morals_pairs (''SENECA OF BENEFITS'' @ [nl] @ ''SENECA OF CLEMENCY'' @ [nl] @ ''CHAPTER I.''
                 @ [nl] @ replicate 101 CHR ''a'')
     = [(''SENECA OF CLEMENCY'', replicate 101 CHR ''a'')]"
  "morals_pairs (''SENECA OF BENEFITS'' @ [nl] @ ''CHAPTER I.'' @ [nl] @ replicate 101 CHR ''a'')
     = []"
  by code_simp+



end
